theory Spec2Isabelle
  imports Complex_Main
begin

section \<open>JavaScript primitives used by the booking client\<close>

text \<open>
  Strings are \<^typ>\<open>string\<close>, one \<^typ>\<open>char\<close> per code unit: the model covers the strings
  whose code units are below 256 (ASCII and Latin-1), and on these the white space and
  the case mapping below are the engine's.
\<close>

definition is_digit :: "char \<Rightarrow> bool" where
  "is_digit c = (c \<in> set ''0123456789'')"

definition is_hex_digit :: "char \<Rightarrow> bool" where
  "is_hex_digit c = (c \<in> set ''0123456789abcdefABCDEF'')"

text \<open>White space and line terminators that \<^verbatim>\<open>parseInt\<close> and \<^verbatim>\<open>parseFloat\<close> skip: TAB, LF,
  VT, FF, CR, SP and the no-break space (code unit 160).\<close>

definition is_white :: "char \<Rightarrow> bool" where
  "is_white c = (of_char c \<in> {9, 10, 11, 12, 13, 32, 160 :: nat})"

definition digit_value :: "char \<Rightarrow> nat" where
  "digit_value c =
     (case map_of (zip ''0123456789abcdefABCDEF''
                       [0, 1, 2, 3, 4, 5, 6, 7, 8, 9, 10, 11, 12, 13, 14, 15, 10, 11, 12, 13, 14, 15]) c of
        Some d \<Rightarrow> d
      | None \<Rightarrow> 0)"

text \<open>The value of a digit string in a radix, most significant digit first.\<close>

definition digits_value :: "nat \<Rightarrow> string \<Rightarrow> nat" where
  "digits_value radix ds = foldl (\<lambda>acc c. acc * radix + digit_value c) 0 ds"

text \<open>
  \<^verbatim>\<open>parseInt(s)\<close> with no radix: skip white space, read a sign, read a \<^verbatim>\<open>0x\<close> or \<^verbatim>\<open>0X\<close>
  prefix as radix 16, take the longest run of digits of the radix; \<open>None\<close> is \<^verbatim>\<open>NaN\<close>.
  The result is the mathematical integer; JavaScript then rounds it to a double, which
  is the same number while its magnitude is below \<open>2 ^ 53\<close>.
\<close>

definition parseInt :: "string \<Rightarrow> int option" where
  "parseInt inputString =
     (let S = dropWhile is_white inputString;
          negative = (S \<noteq> [] \<and> hd S = CHR ''-'');
          S1 = (if S \<noteq> [] \<and> (hd S = CHR ''+'' \<or> hd S = CHR ''-'') then tl S else S);
          hex = (take 2 S1 = ''0x'' \<or> take 2 S1 = ''0X'');
          S2 = (if hex then drop 2 S1 else S1);
          Z = (if hex then takeWhile is_hex_digit S2 else takeWhile is_digit S2);
          mathInt = int (digits_value (if hex then 16 else 10) Z)
      in if Z = [] then None else Some (if negative then - mathInt else mathInt))"

text \<open>
  \<^verbatim>\<open>Number.prototype.toString()\<close> of an integer: its decimal digits, with a minus sign.
  This is the engine's text for an integer of magnitude below \<open>2 ^ 53\<close>; above it the
  engine prints the rounded double (and an exponent from \<open>10 ^ 21\<close> on), so a statement
  about the printed text carries that bound.
\<close>

fun nat_toString :: "nat \<Rightarrow> string" where
  "nat_toString n =
     (if n < 10 then [''0123456789'' ! n]
      else nat_toString (n div 10) @ [''0123456789'' ! (n mod 10)])"

declare nat_toString.simps [simp del]

definition toString :: "int \<Rightarrow> string" where
  "toString n = (if n < 0 then CHR ''-'' # nat_toString (nat (- n)) else nat_toString (nat n))"

definition padStart :: "nat \<Rightarrow> char \<Rightarrow> string \<Rightarrow> string" where
  "padStart targetLength c s = replicate (targetLength - length s) c @ s"

definition substring :: "string \<Rightarrow> nat \<Rightarrow> nat \<Rightarrow> string" where
  "substring s start stop = take (stop - start) (drop start s)"

text \<open>The regular expressions \<^verbatim>\<open>/^\d{2}:\d{2}$/\<close> and \<^verbatim>\<open>/^\d{2}:\d{2}:\d{2}$/\<close>.\<close>

definition matches_hhmm :: "string \<Rightarrow> bool" where
  "matches_hhmm s =
     (case s of
        [a, b, c, d, e] \<Rightarrow> is_digit a \<and> is_digit b \<and> c = CHR '':'' \<and> is_digit d \<and> is_digit e
      | _ \<Rightarrow> False)"

definition matches_hhmmss :: "string \<Rightarrow> bool" where
  "matches_hhmmss s =
     (case s of
        [a, b, c, d, e, f, g, h] \<Rightarrow>
          is_digit a \<and> is_digit b \<and> c = CHR '':'' \<and> is_digit d \<and> is_digit e \<and> f = CHR '':'' \<and>
          is_digit g \<and> is_digit h
      | _ \<Rightarrow> False)"

section \<open>Time formatting\<close>

text \<open>\<^verbatim>\<open>formatTime\<close> of \<^verbatim>\<open>src/api/bookingApi.ts\<close>.\<close>

definition formatTime :: "string \<Rightarrow> string" where
  "formatTime timeString =
     (if timeString = [] then []
      else if matches_hhmm timeString then timeString
      else if matches_hhmmss timeString then substring timeString 0 5
      else (case parseInt timeString of
              Some hour \<Rightarrow> padStart 2 (CHR ''0'') (toString hour) @ '':00''
            | None \<Rightarrow> timeString))"

text \<open>
  \<^verbatim>\<open>formatTime\<close> of the bookings screen, \<^verbatim>\<open>src/app/(tabs)/bookings.tsx\<close>. \<^verbatim>\<open>new Date(s)\<close>
  never throws: for text it cannot read it gives the Invalid Date, and
  \<^verbatim>\<open>toLocaleTimeString\<close> of the Invalid Date is the text \<^verbatim>\<open>Invalid Date\<close>. What the engine's
  date parser reads is a parameter of the model (\<open>new_Date\<close>); a valid date is kept as
  its local hour and minute, which the \<^verbatim>\<open>en-US\<close> two-digit 24-hour pattern prints.
\<close>

datatype js_date = InvalidDate | ValidDate nat nat

definition toLocaleTimeString :: "js_date \<Rightarrow> string" where
  "toLocaleTimeString d =
     (case d of
        InvalidDate \<Rightarrow> ''Invalid Date''
      | ValidDate h m \<Rightarrow>
          padStart 2 (CHR ''0'') (nat_toString h) @ '':'' @ padStart 2 (CHR ''0'') (nat_toString m))"

definition screen_formatTime :: "(string \<Rightarrow> js_date) \<Rightarrow> string \<Rightarrow> string" where
  "screen_formatTime new_Date timeString =
     (if timeString = [] then []
      else if matches_hhmm timeString then timeString
      else if matches_hhmmss timeString then substring timeString 0 5
      else toLocaleTimeString (new_Date timeString))"

section \<open>More primitives: case mapping, \<^verbatim>\<open>parseFloat\<close>, \<^verbatim>\<open>||\<close>, \<^verbatim>\<open>join\<close>\<close>

text \<open>
  The capital letters of Latin-1, code units 0xC0 to 0xDE without the multiplication
  sign 0xD7, and their small letters, 32 code units higher.
\<close>

definition latin1_upper :: string where
  "latin1_upper =
     [CHR 0xC0, CHR 0xC1, CHR 0xC2, CHR 0xC3, CHR 0xC4, CHR 0xC5, CHR 0xC6, CHR 0xC7,
      CHR 0xC8, CHR 0xC9, CHR 0xCA, CHR 0xCB, CHR 0xCC, CHR 0xCD, CHR 0xCE, CHR 0xCF,
      CHR 0xD0, CHR 0xD1, CHR 0xD2, CHR 0xD3, CHR 0xD4, CHR 0xD5, CHR 0xD6,
      CHR 0xD8, CHR 0xD9, CHR 0xDA, CHR 0xDB, CHR 0xDC, CHR 0xDD, CHR 0xDE]"

definition latin1_lower :: string where
  "latin1_lower =
     [CHR 0xE0, CHR 0xE1, CHR 0xE2, CHR 0xE3, CHR 0xE4, CHR 0xE5, CHR 0xE6, CHR 0xE7,
      CHR 0xE8, CHR 0xE9, CHR 0xEA, CHR 0xEB, CHR 0xEC, CHR 0xED, CHR 0xEE, CHR 0xEF,
      CHR 0xF0, CHR 0xF1, CHR 0xF2, CHR 0xF3, CHR 0xF4, CHR 0xF5, CHR 0xF6,
      CHR 0xF8, CHR 0xF9, CHR 0xFA, CHR 0xFB, CHR 0xFC, CHR 0xFD, CHR 0xFE]"

definition toLowerCase :: "string \<Rightarrow> string" where
  "toLowerCase s =
     map (\<lambda>c. case map_of (zip (''ABCDEFGHIJKLMNOPQRSTUVWXYZ'' @ latin1_upper)
                                (''abcdefghijklmnopqrstuvwxyz'' @ latin1_lower)) c of
                 Some l \<Rightarrow> l
               | None \<Rightarrow> c) s"

text \<open>
  A JavaScript number, as far as the client needs it: \<^verbatim>\<open>NaN\<close>, the infinities, and a finite
  value. \<open>Num r\<close> carries the mathematical value \<open>r\<close> of what was read. The engine holds
  the double nearest to \<open>r\<close> (an infinity when \<open>r\<close> is out of range); the rounding is not
  modelled, so a statement that a result is \<open>Num r\<close> is made only for an \<open>r\<close> that a double
  holds exactly.
\<close>

datatype number = NaN | PosInfinity | NegInfinity | Num rat

definition exponent_part :: "string \<Rightarrow> int" where
  "exponent_part r =
     (case r of
        [] \<Rightarrow> 0
      | c # t \<Rightarrow>
          if c = CHR ''e'' \<or> c = CHR ''E'' then
            (case t of
               [] \<Rightarrow> 0
             | s # u \<Rightarrow>
                 if s = CHR ''-'' then - int (digits_value 10 (takeWhile is_digit u))
                 else if s = CHR ''+'' then int (digits_value 10 (takeWhile is_digit u))
                 else int (digits_value 10 (takeWhile is_digit t)))
          else 0)"

definition scale10 :: "rat \<Rightarrow> int \<Rightarrow> rat" where
  "scale10 x e = (if 0 \<le> e then x * 10 ^ nat e else x / 10 ^ nat (- e))"

text \<open>
  \<^verbatim>\<open>parseFloat(s)\<close>: skip white space, read a sign, then the longest prefix that is
  \<^verbatim>\<open>Infinity\<close> or a decimal literal (digits, a fraction, an exponent with at least one
  digit); \<^verbatim>\<open>NaN\<close> when there is no such prefix.
\<close>

definition parseFloat :: "string \<Rightarrow> number" where
  "parseFloat inputString =
     (let trimmed = dropWhile is_white inputString;
          negative = (trimmed \<noteq> [] \<and> hd trimmed = CHR ''-'');
          body = (if trimmed \<noteq> [] \<and> (hd trimmed = CHR ''+'' \<or> hd trimmed = CHR ''-'')
                  then tl trimmed else trimmed);
          ip = takeWhile is_digit body;
          r1 = dropWhile is_digit body;
          dotted = (r1 \<noteq> [] \<and> hd r1 = CHR ''.'');
          fp = (if dotted then takeWhile is_digit (tl r1) else []);
          r2 = (if dotted then dropWhile is_digit (tl r1) else r1);
          magnitude = scale10 (of_nat (digits_value 10 (ip @ fp)) / 10 ^ length fp) (exponent_part r2)
      in if take 8 body = ''Infinity'' then (if negative then NegInfinity else PosInfinity)
         else if ip = [] \<and> fp = [] then NaN
         else Num (if negative then - magnitude else magnitude))"

text \<open>\<^verbatim>\<open>x || d\<close> for a string field that may be missing: the empty string is falsy too.\<close>

definition truthy :: "string option \<Rightarrow> bool" where
  "truthy x = (case x of Some s \<Rightarrow> s \<noteq> [] | None \<Rightarrow> False)"

definition or_default :: "string option \<Rightarrow> string \<Rightarrow> string" where
  "or_default x d = (case x of Some s \<Rightarrow> if s = [] then d else s | None \<Rightarrow> d)"

fun join :: "string \<Rightarrow> string list \<Rightarrow> string" where
  "join sep [] = []"
| "join sep [x] = x"
| "join sep (x # y # ys) = x @ sep @ join sep (y # ys)"

text \<open>\<^verbatim>\<open>img.replace(/\\/g, '/')\<close>: every backslash (code unit 0x5C) becomes a slash.\<close>

definition replace_backslashes :: "string \<Rightarrow> string" where
  "replace_backslashes img = map (\<lambda>c. if c = CHR 0x5C then CHR ''/'' else c) img"

section \<open>The wire shape and the canonical booking\<close>

text \<open>
  What \<^verbatim>\<open>JSON.parse\<close> returns. The parser itself belongs to the engine: the model takes
  it as the parameter \<open>JSON_parse\<close>, with \<open>None\<close> for the \<^verbatim>\<open>SyntaxError\<close> it throws.
\<close>

datatype json =
  JNull | JBool bool | JNum rat | JStr string | JArr "json list" | JObj "(string \<times> json) list"

text \<open>
  The raw booking of the backend (interface \<^verbatim>\<open>Booking\<close> of the API modules and the fields
  \<^verbatim>\<open>getBookings\<close> reads), every field possibly missing. The \<^verbatim>\<open>images\<close> field comes as a
  JSON-encoded string or as a sequence of strings. The \<^verbatim>\<open>bookingId\<close> is an integer that a
  JSON number carries exactly (magnitude below \<open>2 ^ 53\<close>).
\<close>

datatype raw_images = NoImages | ImagesText string | ImagesArray "string list"

record raw_slot =
  start_time :: "string option"
  startTime :: "string option"
  end_time :: "string option"
  endTime :: "string option"

record raw_booking =
  bookingId :: "int option"
  facility_slug :: "string option"
  facility :: "string option"
  facility_image :: "string option"
  images :: raw_images
  address :: "string option"
  lat :: "string option"
  lng :: "string option"
  court :: "string option"
  date :: "string option"
  price :: "string option"
  status :: "string option"
  slots :: "raw_slot list option"

text \<open>The object \<^verbatim>\<open>processedBooking\<close> that \<^verbatim>\<open>getBookings\<close> builds.\<close>

record coordinates =
  latitude :: number
  longitude :: number

record venue =
  v_id :: string
  v_name :: string
  v_location :: string
  v_type :: string
  v_slug :: string
  v_images :: "string list"
  v_coordinates :: coordinates

record booking =
  b_id :: string
  b_venue :: venue
  b_date :: "string option"
  b_startTime :: string
  b_endTime :: string
  b_totalAmount :: number
  b_status :: string
  b_slots :: nat

section \<open>Normalization of one raw booking (\<^verbatim>\<open>getBookings\<close>, \<^verbatim>\<open>src/api/bookingApi.ts\<close>)\<close>

definition asset_host :: string where
  "asset_host = ''https://admin.bookvenue.app/''"

definition fallback_image :: string where
  "fallback_image =
     ''https://images.pexels.com/photos/1263426/pexels-photo-1263426.jpeg?auto=compress&cs=tinysrgb&w=1260&h=750&dpr=2''"

text \<open>The strings of a parsed array; \<open>None\<close> when an element is not a string
  (\<^verbatim>\<open>img.replace\<close> throws a \<^verbatim>\<open>TypeError\<close> there).\<close>

fun strings_of :: "json list \<Rightarrow> string list option" where
  "strings_of [] = Some []"
| "strings_of (JStr s # xs) = (case strings_of xs of Some ss \<Rightarrow> Some (s # ss) | None \<Rightarrow> None)"
| "strings_of (_ # xs) = None"

text \<open>The text \<^verbatim>\<open>JSON.parse(booking.images)\<close> reads, when \<^verbatim>\<open>booking.images\<close> is truthy: an
  array argument is first turned into a string, its elements joined by commas.\<close>

definition images_text :: "raw_images \<Rightarrow> string option" where
  "images_text imgs =
     (case imgs of
        NoImages \<Rightarrow> None
      | ImagesText s \<Rightarrow> if s = [] then None else Some s
      | ImagesArray xs \<Rightarrow> Some (join '','' xs))"

text \<open>The \<^verbatim>\<open>try\<close> block: any throw inside it leaves \<^verbatim>\<open>facilityImages\<close> empty.\<close>

definition parsed_facility_images :: "(string \<Rightarrow> json option) \<Rightarrow> raw_images \<Rightarrow> string list" where
  "parsed_facility_images JSON_parse imgs =
     (case images_text imgs of
        None \<Rightarrow> []
      | Some txt \<Rightarrow>
          (case JSON_parse txt of
             Some (JArr parsedImages) \<Rightarrow>
               (case strings_of parsedImages of
                  Some ss \<Rightarrow> map (\<lambda>img. asset_host @ replace_backslashes img) ss
                | None \<Rightarrow> [])
           | _ \<Rightarrow> []))"

definition facilityImages :: "(string \<Rightarrow> json option) \<Rightarrow> raw_booking \<Rightarrow> string list" where
  "facilityImages JSON_parse booking =
     (let parsed = parsed_facility_images JSON_parse (images booking);
          featured = (if truthy (facility_image booking)
                      then (asset_host @ the (facility_image booking)) # parsed else parsed)
      in if length featured = 0 then [fallback_image] else featured)"

text \<open>The formatted times of the slots: \<^verbatim>\<open>map\<close>, then \<^verbatim>\<open>filter(Boolean)\<close>.\<close>

definition first_truthy :: "string option \<Rightarrow> string option \<Rightarrow> string option" where
  "first_truthy a b = (if truthy a then a else if truthy b then b else None)"

definition slot_times :: "(raw_slot \<Rightarrow> string option) \<Rightarrow> raw_slot list \<Rightarrow> string list" where
  "slot_times pick ss =
     filter (\<lambda>t. t \<noteq> [])
       (map (\<lambda>slot. case pick slot of Some time \<Rightarrow> formatTime time | None \<Rightarrow> []) ss)"

definition joined_times :: "string list \<Rightarrow> string" where
  "joined_times ts = (if length ts > 0 then join '', '' ts else [])"

definition slots_or_empty :: "raw_booking \<Rightarrow> raw_slot list" where
  "slots_or_empty booking = (case slots booking of Some ss \<Rightarrow> ss | None \<Rightarrow> [])"

text \<open>
  The object that the callback of \<^verbatim>\<open>bookingsData.map\<close> returns for a raw booking whose
  fields have their wire types. \<open>random\<close> is the text of \<^verbatim>\<open>Math.random().toString()\<close> for
  this call, read only when the booking has no id. What else the callback does, its
  \<^verbatim>\<open>console\<close> output and the error it throws on a status of another type, is in
  \<open>bookingCallback\<close> below.
\<close>

definition processedBooking :: "(string \<Rightarrow> json option) \<Rightarrow> string \<Rightarrow> raw_booking \<Rightarrow> booking" where
  "processedBooking JSON_parse random booking =
     \<lparr> b_id = (case bookingId booking of Some n \<Rightarrow> toString n | None \<Rightarrow> random),
       b_venue =
         \<lparr> v_id = or_default (facility_slug booking) ''venue-1'',
           v_name = or_default (facility booking) ''Unknown Venue'',
           v_location = or_default (address booking) ''Location not available'',
           v_type = or_default (court booking) ''Court'',
           v_slug = or_default (facility_slug booking) ''venue-1'',
           v_images = facilityImages JSON_parse booking,
           v_coordinates =
             \<lparr> latitude = parseFloat (or_default (lat booking) ''28.6139''),
               longitude = parseFloat (or_default (lng booking) ''77.2090'') \<rparr> \<rparr>,
       b_date = date booking,
       b_startTime =
         joined_times (slot_times (\<lambda>slot. first_truthy (start_time slot) (startTime slot))
                                  (slots_or_empty booking)),
       b_endTime =
         joined_times (slot_times (\<lambda>slot. first_truthy (end_time slot) (endTime slot))
                                  (slots_or_empty booking)),
       b_totalAmount = parseFloat (or_default (price booking) ''0''),
       b_status = toLowerCase (or_default (status booking) ''pending''),
       b_slots = length (slots_or_empty booking) \<rparr>"

text \<open>\<^verbatim>\<open>totalAmount\<close> of \<^verbatim>\<open>getBookingById\<close>:
  \<^verbatim>\<open>parseFloat(booking.total_price || booking.price || '0')\<close>.\<close>

definition byId_totalAmount :: "string option \<Rightarrow> string option \<Rightarrow> number" where
  "byId_totalAmount total_price price' =
     parseFloat (or_default total_price (or_default price' ''0''))"

section \<open>The callback with its effects\<close>

text \<open>
  The parameter of the callback is typed \<^verbatim>\<open>any\<close>. Line 91,
  \<^verbatim>\<open>(booking.status || 'pending').toLowerCase()\<close>, is modelled for a status of any JSON
  type: a falsy value (\<^verbatim>\<open>null\<close>, \<^verbatim>\<open>false\<close>, \<^verbatim>\<open>0\<close>, the empty string) gives way to
  \<^verbatim>\<open>'pending'\<close>, a string is lower-cased, and any other value has no \<^verbatim>\<open>toLowerCase\<close>, so the
  call throws a \<^verbatim>\<open>TypeError\<close>.
\<close>

datatype exception = TypeError

fun json_truthy :: "json \<Rightarrow> bool" where
  "json_truthy JNull = False"
| "json_truthy (JBool b) = b"
| "json_truthy (JNum r) = (r \<noteq> 0)"
| "json_truthy (JStr s) = (s \<noteq> [])"
| "json_truthy (JArr xs) = True"
| "json_truthy (JObj kvs) = True"

definition bookingStatus :: "json \<Rightarrow> exception + string" where
  "bookingStatus v =
     (if json_truthy v
      then (case v of JStr s \<Rightarrow> Inr (toLowerCase s) | _ \<Rightarrow> Inl TypeError)
      else Inr (toLowerCase ''pending''))"

text \<open>The JSON value of a status of the wire type.\<close>

definition status_json :: "string option \<Rightarrow> json" where
  "status_json x = (case x of None \<Rightarrow> JNull | Some s \<Rightarrow> JStr s)"

text \<open>
  The \<^verbatim>\<open>try\<close> block around the image decoding throws when \<^verbatim>\<open>JSON.parse\<close> throws, when the
  parsed value is not an array (\<^verbatim>\<open>parsedImages.map\<close> is not a function) and when an element
  is not a string (\<^verbatim>\<open>img.replace\<close> is not a function); the \<^verbatim>\<open>catch\<close> block then writes a
  warning to the console.
\<close>

definition images_decode_throws :: "(string \<Rightarrow> json option) \<Rightarrow> raw_images \<Rightarrow> bool" where
  "images_decode_throws JSON_parse imgs =
     (case images_text imgs of
        None \<Rightarrow> False
      | Some txt \<Rightarrow>
          (case JSON_parse txt of
             None \<Rightarrow> True
           | Some (JArr parsedImages) \<Rightarrow> strings_of parsedImages = None
           | Some _ \<Rightarrow> True))"

text \<open>
  A line of console output: the label of a \<^verbatim>\<open>console.warn\<close> (the exception printed after
  it is left out), or the label and the object of a \<^verbatim>\<open>console.log\<close>.
\<close>

datatype console_entry = console_warn string | console_log string booking

text \<open>
  One run of the callback: the console output it writes, and the canonical booking it
  returns or the exception it throws. \<open>booking\<close> gives the fields that have their wire
  types, \<open>status_value\<close> is the \<^verbatim>\<open>status\<close> as received, of any JSON type. The warning of the
  image decoding comes first; line 91 throws before \<^verbatim>\<open>console.log('Processed booking:',
  processedBooking)\<close> is reached.
\<close>

definition bookingCallback ::
  "(string \<Rightarrow> json option) \<Rightarrow> string \<Rightarrow> raw_booking \<Rightarrow> json
     \<Rightarrow> console_entry list \<times> (exception + booking)"
where
  "bookingCallback JSON_parse random booking status_value =
     (let warned = (if images_decode_throws JSON_parse (images booking)
                    then [console_warn ''Failed to parse facility images:''] else [])
      in case bookingStatus status_value of
           Inl e \<Rightarrow> (warned, Inl e)
         | Inr bookingStatus' \<Rightarrow>
             (let processed = (processedBooking JSON_parse random booking)\<lparr>b_status := bookingStatus'\<rparr>
              in (warned @ [console_log ''Processed booking:'' processed], Inr processed)))"

section \<open>Persisted storage and the HTTP client wrappers\<close>

text \<open>
  \<^verbatim>\<open>AsyncStorage\<close> is a map from keys to strings; its operations are taken to succeed.
\<close>

type_synonym storage = "string \<rightharpoonup> string"

definition getItem :: "storage \<Rightarrow> string \<Rightarrow> string option" where
  "getItem st k = st k"

definition removeItem :: "storage \<Rightarrow> string \<Rightarrow> storage" where
  "removeItem st k = st(k := None)"

text \<open>
  What comes back for a request: no response at all, or a status code with the decoded
  body. Of a body the client reads the fields \<^verbatim>\<open>bookings\<close> and \<^verbatim>\<open>message\<close>. \<open>None\<close> is the
  body \<^verbatim>\<open>null\<close> (or no body at all), on which reading a field throws. A body that is not
  an object (a string, the empty string included, a number, a boolean) has neither
  field: it is the body with both fields missing.
\<close>

record body =
  bookings :: "raw_booking list option"
  message :: "string option"

datatype reply = NoResponse | Response nat "body option"

text \<open>axios settles a reply: fulfilled for a status from 200 to 299, rejected with the
  reply as \<^verbatim>\<open>error.response\<close> otherwise.\<close>

datatype outcome = Fulfilled "body option" | Rejected reply

definition settle :: "reply \<Rightarrow> outcome" where
  "settle r =
     (case r of
        NoResponse \<Rightarrow> Rejected NoResponse
      | Response code d \<Rightarrow> if 200 \<le> code \<and> code < 300 then Fulfilled d else Rejected r)"

text \<open>The request interceptor of both clients: the \<^verbatim>\<open>Authorization\<close> header it attaches.\<close>

definition request_interceptor :: "storage \<Rightarrow> string option" where
  "request_interceptor st =
     (if truthy (getItem st ''token'') then Some (''Bearer '' @ the (getItem st ''token'')) else None)"

text \<open>
  The client \<^verbatim>\<open>api\<close> of \<^verbatim>\<open>src/api/bookingApi.ts\<close> registers the request interceptor only:
  a request leaves the storage as it is, whatever the reply.
\<close>

definition api :: "storage \<Rightarrow> reply \<Rightarrow> storage \<times> outcome" where
  "api st r = (st, settle r)"

text \<open>
  The client \<^verbatim>\<open>api\<close> of the second booking module (\<^verbatim>\<open>src/unnamed/part_001\<close>) also registers
  a response interceptor: on a rejected reply with status 401 it removes \<^verbatim>\<open>token\<close>, then
  \<^verbatim>\<open>user\<close>, and rejects with the same error.
\<close>

definition response_interceptor :: "storage \<Rightarrow> outcome \<Rightarrow> storage \<times> outcome" where
  "response_interceptor st out =
     (case out of
        Fulfilled d \<Rightarrow> (st, out)
      | Rejected NoResponse \<Rightarrow> (st, out)
      | Rejected (Response code d) \<Rightarrow>
          if code = 401 then (removeItem (removeItem st ''token'') ''user'', out) else (st, out))"

definition api_part001 :: "storage \<Rightarrow> reply \<Rightarrow> storage \<times> outcome" where
  "api_part001 st r = response_interceptor st (settle r)"

section \<open>The list operations\<close>

datatype error = Error string

text \<open>\<^verbatim>\<open>error.response?.data?.message || fallback\<close> of the \<^verbatim>\<open>catch\<close> blocks.\<close>

definition error_message :: "reply \<Rightarrow> string \<Rightarrow> string" where
  "error_message r fallback =
     (case r of
        Response code (Some d) \<Rightarrow> or_default (message d) fallback
      | _ \<Rightarrow> fallback)"

text \<open>
  \<^verbatim>\<open>getBookings\<close> of \<^verbatim>\<open>src/api/bookingApi.ts\<close>: one \<^verbatim>\<open>GET /my-bookings\<close>, then the callback
  on every raw booking; \<open>random i\<close> is the random text for the booking at index \<open>i\<close>.
\<close>

definition getBookings ::
  "(string \<Rightarrow> json option) \<Rightarrow> (nat \<Rightarrow> string) \<Rightarrow> storage \<Rightarrow> reply \<Rightarrow> storage \<times> (error + booking list)"
where
  "getBookings JSON_parse random st r =
     (case api st r of
        (st', Fulfilled None) \<Rightarrow> (st', Inr [])
      | (st', Fulfilled (Some d)) \<Rightarrow>
          (let bookingsData = (case bookings d of Some bs \<Rightarrow> bs | None \<Rightarrow> [])
           in (st', Inr (map (\<lambda>(i, booking). processedBooking JSON_parse (random i) booking)
                             (enumerate 0 bookingsData))))
      | (st', Rejected e) \<Rightarrow> (st', Inl (Error (error_message e ''Failed to fetch bookings''))))"

text \<open>
  \<^verbatim>\<open>getMyBookings\<close> of \<^verbatim>\<open>src/unnamed/part_001\<close> returns the raw bookings with their
  \<^verbatim>\<open>images\<close> decoded and resolved. Its \<^verbatim>\<open>try\<close> covers the decoding only: a decoded value
  that is not an array of strings makes \<^verbatim>\<open>parsedImages.map\<close> throw, which the outer
  \<^verbatim>\<open>catch\<close> turns into the operation's error.
\<close>

definition resolve_image :: "string \<Rightarrow> string" where
  "resolve_image img = (if take 4 img = ''http'' then img else asset_host @ img)"

definition processed_images :: "(string \<Rightarrow> json option) \<Rightarrow> raw_images \<Rightarrow> string list option" where
  "processed_images JSON_parse imgs =
     (case imgs of
        NoImages \<Rightarrow> Some []
      | ImagesText s \<Rightarrow>
          if s = [] then Some []
          else (case JSON_parse s of
                  None \<Rightarrow> Some []
                | Some (JArr xs) \<Rightarrow> map_option (map resolve_image) (strings_of xs)
                | Some _ \<Rightarrow> None)
      | ImagesArray xs \<Rightarrow> Some (map resolve_image xs))"

definition processed_raw :: "(string \<Rightarrow> json option) \<Rightarrow> raw_booking \<Rightarrow> raw_booking option" where
  "processed_raw JSON_parse booking =
     map_option (\<lambda>imgs. booking\<lparr>images := ImagesArray imgs\<rparr>)
       (processed_images JSON_parse (images booking))"

definition getMyBookings ::
  "(string \<Rightarrow> json option) \<Rightarrow> storage \<Rightarrow> reply \<Rightarrow> storage \<times> (error + raw_booking list)"
where
  "getMyBookings JSON_parse st r =
     (case api_part001 st r of
        (st', Fulfilled None) \<Rightarrow> (st', Inl (Error ''Failed to fetch bookings''))
      | (st', Fulfilled (Some d)) \<Rightarrow>
          (case bookings d of
             None \<Rightarrow> (st', Inr [])
           | Some bs \<Rightarrow>
               (case those (map (processed_raw JSON_parse) bs) of
                  Some processedBookings \<Rightarrow> (st', Inr processedBookings)
                | None \<Rightarrow> (st', Inl (Error ''Failed to fetch bookings''))))
      | (st', Rejected e) \<Rightarrow> (st', Inl (Error (error_message e ''Failed to fetch bookings''))))"

section \<open>The session store\<close>

text \<open>
  The state of \<^verbatim>\<open>AuthProvider\<close>: \<^verbatim>\<open>user\<close> holds whatever \<^verbatim>\<open>JSON.parse\<close> returned
  (\<^verbatim>\<open>null\<close> is \<open>JNull\<close>), \<^verbatim>\<open>loading\<close> is the flag. At mount the state is \<open>initial_state\<close>.
\<close>

record auth_state =
  user :: json
  loading :: bool

definition initial_state :: auth_state where
  "initial_state = \<lparr> user = JNull, loading = True \<rparr>"

text \<open>
  \<^verbatim>\<open>loadStoredUser\<close> of \<^verbatim>\<open>src/contexts/AuthContext.tsx\<close>. The \<^verbatim>\<open>catch\<close> block is reached when
  \<^verbatim>\<open>JSON.parse\<close> throws; it removes both keys. \<^verbatim>\<open>finally\<close> clears the flag on every path.
\<close>

definition loadStoredUser ::
  "(string \<Rightarrow> json option) \<Rightarrow> auth_state \<Rightarrow> storage \<Rightarrow> auth_state \<times> storage"
where
  "loadStoredUser JSON_parse s st =
     (let storedUser = getItem st ''user'';
          storedToken = getItem st ''token''
      in if truthy storedUser \<and> truthy storedToken then
           (case JSON_parse (the storedUser) of
              Some userData \<Rightarrow> (s\<lparr>user := userData, loading := False\<rparr>, st)
            | None \<Rightarrow> (s\<lparr>loading := False\<rparr>, removeItem (removeItem st ''user'') ''token''))
         else (s\<lparr>loading := False\<rparr>, st))"

text \<open>
  \<^verbatim>\<open>loadStoredUser\<close> of the earlier context (\<^verbatim>\<open>src/unnamed/part_000\<close>): it reads \<^verbatim>\<open>user\<close>
  only, and its \<^verbatim>\<open>catch\<close> block only logs.
\<close>

definition loadStoredUser_part000 ::
  "(string \<Rightarrow> json option) \<Rightarrow> auth_state \<Rightarrow> storage \<Rightarrow> auth_state \<times> storage"
where
  "loadStoredUser_part000 JSON_parse s st =
     (let storedUser = getItem st ''user''
      in if truthy storedUser then
           (case JSON_parse (the storedUser) of
              Some userData \<Rightarrow> (s\<lparr>user := userData, loading := False\<rparr>, st)
            | None \<Rightarrow> (s\<lparr>loading := False\<rparr>, st))
         else (s\<lparr>loading := False\<rparr>, st))"

section \<open>Inputs and input classes used in the statements\<close>

text \<open>The raw booking \<^verbatim>\<open>{}\<close>: every field missing.\<close>

definition absent_booking :: raw_booking where
  "absent_booking =
     \<lparr> bookingId = None, facility_slug = None, facility = None, facility_image = None,
       images = NoImages, address = None, lat = None, lng = None, court = None, date = None,
       price = None, status = None, slots = None \<rparr>"





section \<open>Facts about the primitives\<close>

lemma is_digit_not_white: "is_digit c \<Longrightarrow> \<not> is_white c"
  by (auto simp: is_digit_def is_white_def)

lemma is_digit_not_sign: "is_digit c \<Longrightarrow> c \<noteq> CHR ''+'' \<and> c \<noteq> CHR ''-'' \<and> c \<noteq> CHR ''I''"
  by (auto simp: is_digit_def)

lemma takeWhile_digits_prefix:
  "list_all is_digit ds \<Longrightarrow> rest = [] \<or> \<not> is_digit (hd rest) \<Longrightarrow> takeWhile is_digit (ds @ rest) = ds"
  by (induction ds) (auto simp: takeWhile_eq_Nil_iff neq_Nil_conv)




lemma parseInt_Nil: "parseInt [] = None"
  by (simp add: parseInt_def)

text \<open>
  On a string that starts with decimal digits, \<^verbatim>\<open>parseInt\<close> reads exactly that run as a
  decimal number, unless the run is the \<^verbatim>\<open>0\<close> of a \<^verbatim>\<open>0x\<close> prefix.
\<close>

lemma parseInt_decimal_prefix:
  assumes "ds \<noteq> []" "list_all is_digit ds" "rest = [] \<or> \<not> is_digit (hd rest)"
    and nohex: "\<not> (ds = ''0'' \<and> rest \<noteq> [] \<and> (hd rest = CHR ''x'' \<or> hd rest = CHR ''X''))"
  shows "parseInt (ds @ rest) = Some (int (digits_value 10 ds))"
proof -
  obtain c cs where ds: "ds = c # cs" using assms(1) by (cases ds) auto
  have c: "is_digit c" using assms(2) ds by simp
  have d: "dropWhile is_white (ds @ rest) = ds @ rest"
    using c ds is_digit_not_white by simp
  have h: "hd (ds @ rest) \<noteq> CHR ''+'' \<and> hd (ds @ rest) \<noteq> CHR ''-''"
    using c ds is_digit_not_sign by simp
  have x: "take 2 (ds @ rest) \<noteq> ''0x'' \<and> take 2 (ds @ rest) \<noteq> ''0X''"
  proof (cases cs)
    case Nil
    then show ?thesis using nohex ds by (cases rest) auto
  next
    case (Cons e es)
    then have "is_digit e" using assms(2) ds by simp
    then have "e \<noteq> CHR ''x'' \<and> e \<noteq> CHR ''X''" by (auto simp: is_digit_def)
    then show ?thesis using ds Cons by simp
  qed
  show ?thesis
    unfolding parseInt_def Let_def d
    using h x assms(1) takeWhile_digits_prefix[OF assms(2,3)] by simp
qed




section \<open>Time formatting of the booking API\<close>

lemma hhmm_not_hhmmss: "matches_hhmmss s \<Longrightarrow> \<not> matches_hhmm s"
  by (auto simp: matches_hhmm_def matches_hhmmss_def split: list.splits)

lemma hhmmss_not_Nil: "matches_hhmmss s \<Longrightarrow> s \<noteq> []"
  by (auto simp: matches_hhmmss_def)

lemma formatTime_hhmm: "matches_hhmm s \<Longrightarrow> formatTime s = s"
  by (simp add: formatTime_def)

lemma formatTime_hhmmss: "matches_hhmmss s \<Longrightarrow> formatTime s = take 5 s"
  using hhmm_not_hhmmss hhmmss_not_Nil by (simp add: formatTime_def substring_def)

lemma formatTime_unparsable: "parseInt s = None \<Longrightarrow> \<not> matches_hhmmss s \<Longrightarrow> formatTime s = s"
  by (simp add: formatTime_def)

lemma formatTime_examples:
  "formatTime ''14:05'' = ''14:05''" "formatTime ''14:05:30'' = ''14:05''"
  by (simp_all add: formatTime_def matches_hhmm_def matches_hhmmss_def substring_def is_digit_def)

text \<open>
  Claim C10. A string that matches neither pattern and that \<^verbatim>\<open>parseInt\<close> reads as the
  integer \<open>n\<close> is formatted as \<open>n\<close> in decimal, padded on the left with zeros to two
  characters, followed by \<^verbatim>\<open>:00\<close>; it is neither handed to a date parser nor returned
  as it is. The bound keeps \<open>n\<close> in the range where a JavaScript number is the integer
  itself.
\<close>

theorem formatTime_hour:
  assumes "\<not> matches_hhmm s" and "\<not> matches_hhmmss s"
    and "parseInt s = Some n" and "\<bar>n\<bar> < 2 ^ 53"
  shows "formatTime s = padStart 2 (CHR ''0'') (toString n) @ '':00''"
proof -
  have "s \<noteq> []" using assms(3) parseInt_Nil by auto
  then show ?thesis using assms(1-3) by (simp add: formatTime_def)
qed

theorem formatTime_hour_witness:
  "formatTime ''14abc'' = ''14:00'' \<and> formatTime ''9'' = ''09:00''"
proof -
  have a: "\<not> matches_hhmm ''14abc''" "\<not> matches_hhmmss ''14abc''"
    by (simp_all add: matches_hhmm_def matches_hhmmss_def is_digit_def)
  have b: "parseInt ''14abc'' = Some 14"
    by (simp add: parseInt_def is_white_def is_digit_def digits_value_def digit_value_def)
  have c: "\<not> matches_hhmm ''9''" "\<not> matches_hhmmss ''9''"
    by (simp_all add: matches_hhmm_def matches_hhmmss_def)
  have d: "parseInt ''9'' = Some 9"
    by (simp add: parseInt_def is_white_def is_digit_def digits_value_def digit_value_def)
  have e: "\<bar>14::int\<bar> < 2 ^ 53" "\<bar>9::int\<bar> < 2 ^ 53" by simp_all
  show ?thesis
    using formatTime_hour[OF a b e(1)] formatTime_hour[OF c d e(2)]
    by (simp add: padStart_def toString_def nat_toString.simps)
qed

section \<open>Time formatting of the bookings screen\<close>

text \<open>
  Claim C9. The booking API's \<^verbatim>\<open>formatTime\<close> does what the claim says
  (\<open>formatTime_hhmm\<close>, \<open>formatTime_hhmmss\<close>, \<open>formatTime_unparsable\<close>). The bookings
  screen's \<^verbatim>\<open>formatTime\<close> does not pass unreadable text through: for a non-empty string
  that matches neither pattern and that the date parser cannot read, it returns the text
  \<^verbatim>\<open>Invalid Date\<close>. Its \<^verbatim>\<open>catch\<close> branch, which would return the string unchanged, is never
  taken, since neither \<^verbatim>\<open>new Date\<close> nor \<^verbatim>\<open>toLocaleTimeString\<close> throws.
\<close>

theorem screen_formatTime_invalid:
  assumes "timeString \<noteq> []" and "\<not> matches_hhmm timeString" and "\<not> matches_hhmmss timeString"
    and "new_Date timeString = InvalidDate"
  shows "screen_formatTime new_Date timeString = ''Invalid Date''"
  using assms by (simp add: screen_formatTime_def toLocaleTimeString_def)

theorem screen_formatTime_invalid_witness:
  "screen_formatTime (\<lambda>s. InvalidDate) ''abc'' = ''Invalid Date'' \<and> formatTime ''abc'' = ''abc''"
proof -
  have a: "''abc'' \<noteq> []" "\<not> matches_hhmm ''abc''" "\<not> matches_hhmmss ''abc''"
    by (simp_all add: matches_hhmm_def matches_hhmmss_def)
  have b: "parseInt ''abc'' = None"
    by (simp add: parseInt_def is_white_def is_digit_def)
  show ?thesis
    using screen_formatTime_invalid[of "''abc''" "\<lambda>s. InvalidDate", OF a] formatTime_unparsable[OF b a(3)]
    by simp
qed

section \<open>Status\<close>

lemma status_normalized:
  "b_status (processedBooking JSON_parse random booking)
     = toLowerCase (or_default (status booking) ''pending'')"
  by (simp add: processedBooking_def)

lemma status_examples:
  "b_status (processedBooking JSON_parse random (booking\<lparr>status := Some ''CONFIRMED''\<rparr>)) = ''confirmed''"
  "b_status (processedBooking JSON_parse random (booking\<lparr>status := None\<rparr>)) = ''pending''"
  "b_status (processedBooking JSON_parse random (booking\<lparr>status := Some []\<rparr>)) = ''pending''"
  by (simp_all add: processedBooking_def or_default_def toLowerCase_def latin1_upper_def latin1_lower_def)

text \<open>
  Claim C1. The status of the canonical booking is the lower-cased raw status, and
  \<^verbatim>\<open>pending\<close> when the raw status is missing or empty (\<open>status_normalized\<close>,
  \<open>status_examples\<close>). A raw status outside the three values is not mapped to
  \<^verbatim>\<open>pending\<close>: the raw status \<^verbatim>\<open>weird-status\<close> comes out as \<^verbatim>\<open>weird-status\<close>, which is none
  of \<^verbatim>\<open>pending\<close>, \<^verbatim>\<open>confirmed\<close>, \<^verbatim>\<open>cancelled\<close>, although the code casts the field to that
  union type.
\<close>

theorem status_weird_passes_through:
  "b_status (processedBooking JSON_parse random (booking\<lparr>status := Some ''weird-status''\<rparr>))
     = ''weird-status''
   \<and> b_status (processedBooking JSON_parse random (booking\<lparr>status := Some ''weird-status''\<rparr>))
       \<notin> {''pending'', ''confirmed'', ''cancelled''}"
  by (simp add: processedBooking_def or_default_def toLowerCase_def latin1_upper_def latin1_lower_def)

section \<open>Restoring the session\<close>

text \<open>
  Claim C2, as the code has it. When both keys hold a non-empty string and the stored
  session parses, \<^verbatim>\<open>loadStoredUser\<close> ends with exactly that session in memory and leaves
  the storage as it is. When exactly one of the two keys holds a non-empty string, it
  leaves the in-memory session as it was (absent at start-up) and leaves the storage as
  it is: the key that is present is not removed. Both keys are removed only when both are
  present and the stored session does not parse. The loading flag is off on every path.
\<close>

theorem restore_amended:
  "(truthy (getItem st ''user'') \<and> truthy (getItem st ''token'')
      \<and> JSON_parse (the (getItem st ''user'')) = Some session
     \<longrightarrow> loadStoredUser JSON_parse s st = (s\<lparr>user := session, loading := False\<rparr>, st))
   \<and> (truthy (getItem st ''user'') \<noteq> truthy (getItem st ''token'')
     \<longrightarrow> loadStoredUser JSON_parse s st = (s\<lparr>loading := False\<rparr>, st))
   \<and> (truthy (getItem st ''user'') \<and> truthy (getItem st ''token'')
      \<and> JSON_parse (the (getItem st ''user'')) = None
     \<longrightarrow> loadStoredUser JSON_parse s st
          = (s\<lparr>loading := False\<rparr>, removeItem (removeItem st ''user'') ''token''))"
  by (auto simp: loadStoredUser_def Let_def)

theorem restore_amended_witness:
  "loadStoredUser (\<lambda>txt. Some (JObj [(''id'', JStr ''7'')])) initial_state
       (Map.empty(''user'' \<mapsto> ''{}'', ''token'' \<mapsto> ''t0'')) =
     (\<lparr>user = JObj [(''id'', JStr ''7'')], loading = False\<rparr>, Map.empty(''user'' \<mapsto> ''{}'', ''token'' \<mapsto> ''t0''))
   \<and> loadStoredUser (\<lambda>txt. Some (JObj [(''id'', JStr ''7'')])) initial_state (Map.empty(''token'' \<mapsto> ''t0'')) =
     (\<lparr>user = JNull, loading = False\<rparr>, Map.empty(''token'' \<mapsto> ''t0''))
   \<and> loadStoredUser (\<lambda>txt. None) initial_state (Map.empty(''user'' \<mapsto> ''{'', ''token'' \<mapsto> ''t0'')) =
     (\<lparr>user = JNull, loading = False\<rparr>, Map.empty)"
proof -
  let ?P = "\<lambda>txt::string. Some (JObj [(''id'', JStr ''7'')])"
  let ?st2 = "Map.empty(''user'' \<mapsto> ''{}'', ''token'' \<mapsto> ''t0'')"
  let ?st1 = "Map.empty(''token'' \<mapsto> ''t0'') :: storage"
  let ?st3 = "Map.empty(''user'' \<mapsto> ''{'', ''token'' \<mapsto> ''t0'')"
  have A: "loadStoredUser ?P initial_state ?st2
      = (initial_state\<lparr>user := JObj [(''id'', JStr ''7'')], loading := False\<rparr>, ?st2)"
    using restore_amended[of ?st2 ?P "JObj [(''id'', JStr ''7'')]" initial_state, THEN conjunct1]
    by (simp add: getItem_def truthy_def)
  have B: "loadStoredUser ?P initial_state ?st1 = (initial_state\<lparr>loading := False\<rparr>, ?st1)"
    using restore_amended[of ?st1 ?P "JNull" initial_state, THEN conjunct2, THEN conjunct1]
    by (simp add: getItem_def truthy_def)
  have C: "loadStoredUser (\<lambda>txt. None) initial_state ?st3
      = (initial_state\<lparr>loading := False\<rparr>, removeItem (removeItem ?st3 ''user'') ''token'')"
    using restore_amended[of ?st3 "\<lambda>txt. None" "JNull" initial_state, THEN conjunct2, THEN conjunct2]
    by (simp add: getItem_def truthy_def)
  have D: "removeItem (removeItem ?st3 ''user'') ''token'' = Map.empty"
    by (auto simp: removeItem_def)
  show ?thesis using A B C D by (simp add: initial_state_def)
qed

text \<open>
  Claim C2 as stated fails: with only \<^verbatim>\<open>user\<close> persisted, the key \<^verbatim>\<open>user\<close> is still there
  after \<^verbatim>\<open>loadStoredUser\<close>.
\<close>

theorem restore_one_key_not_cleared:
  "getItem (snd (loadStoredUser (\<lambda>txt. Some (JObj [])) initial_state (Map.empty(''user'' \<mapsto> ''{}'')))) ''user''
     = Some ''{}''"
  by (simp add: loadStoredUser_def Let_def getItem_def truthy_def)

text \<open>
  With neither key present nothing changes either, so the storage is changed only when
  both keys are present and the stored session does not parse.
\<close>

lemma restore_no_keys:
  "\<not> truthy (getItem st ''user'') \<Longrightarrow> \<not> truthy (getItem st ''token'') \<Longrightarrow>
   loadStoredUser JSON_parse s st = (s\<lparr>loading := False\<rparr>, st)"
  by (simp add: loadStoredUser_def Let_def)

lemma restore_changes_storage_only_on_parse_failure:
  "snd (loadStoredUser JSON_parse s st) \<noteq> st \<Longrightarrow>
   truthy (getItem st ''user'') \<and> truthy (getItem st ''token'')
     \<and> JSON_parse (the (getItem st ''user'')) = None"
  by (auto simp: loadStoredUser_def Let_def split: if_splits option.splits)

text \<open>The earlier context reads \<^verbatim>\<open>user\<close> alone and never touches the storage.\<close>

lemma restore_part000_user_only:
  "truthy (getItem st ''user'') \<Longrightarrow> JSON_parse (the (getItem st ''user'')) = Some session \<Longrightarrow>
   loadStoredUser_part000 JSON_parse s st = (s\<lparr>user := session, loading := False\<rparr>, st)"
  by (simp add: loadStoredUser_part000_def)

lemma restore_part000_storage: "snd (loadStoredUser_part000 JSON_parse s st) = st"
  by (simp add: loadStoredUser_part000_def Let_def split: option.splits)

section \<open>Images\<close>

lemma parsed_facility_images_undecodable:
  "images_text (images booking) = None
     \<or> (\<exists>txt. images_text (images booking) = Some txt \<and> JSON_parse txt = None)
   \<Longrightarrow> parsed_facility_images JSON_parse (images booking) = []"
  by (auto simp: parsed_facility_images_def)

lemma facilityImages_nonempty: "facilityImages JSON_parse booking \<noteq> []"
  by (simp add: facilityImages_def Let_def)

text \<open>
  Claim C3. The image list of the canonical booking is never empty; and when the raw
  \<^verbatim>\<open>images\<close> field is missing (or empty), or its text does not decode, and there is no
  \<^verbatim>\<open>facility_image\<close>, the list is exactly the one stock fallback URL.
\<close>

theorem images_nonempty:
  "v_images (b_venue (processedBooking JSON_parse random booking)) \<noteq> []
   \<and> ((images_text (images booking) = None
        \<or> (\<exists>txt. images_text (images booking) = Some txt \<and> JSON_parse txt = None))
       \<and> \<not> truthy (facility_image booking)
      \<longrightarrow> v_images (b_venue (processedBooking JSON_parse random booking)) = [fallback_image])"
proof -
  have "v_images (b_venue (processedBooking JSON_parse random booking)) = facilityImages JSON_parse booking"
    by (simp add: processedBooking_def)
  moreover have "(images_text (images booking) = None
        \<or> (\<exists>txt. images_text (images booking) = Some txt \<and> JSON_parse txt = None))
       \<and> \<not> truthy (facility_image booking) \<longrightarrow> facilityImages JSON_parse booking = [fallback_image]"
    using parsed_facility_images_undecodable[of booking JSON_parse]
    by (auto simp: facilityImages_def Let_def)
  ultimately show ?thesis using facilityImages_nonempty by simp
qed

theorem images_nonempty_witness:
  "v_images (b_venue (processedBooking (\<lambda>txt. None) ''0.5'' absent_booking)) = [fallback_image]
   \<and> v_images (b_venue (processedBooking (\<lambda>txt. None) ''0.5''
        (absent_booking\<lparr>images := ImagesText ''not json''\<rparr>))) = [fallback_image]"
proof -
  have a: "images_text (images absent_booking) = None" "\<not> truthy (facility_image absent_booking)"
    by (simp_all add: absent_booking_def truthy_def images_text_def)
  have b: "images_text (images (absent_booking\<lparr>images := ImagesText ''not json''\<rparr>)) = Some ''not json''"
    "\<not> truthy (facility_image (absent_booking\<lparr>images := ImagesText ''not json''\<rparr>))"
    by (simp_all add: absent_booking_def truthy_def images_text_def)
  have A: "v_images (b_venue (processedBooking (\<lambda>txt. None) ''0.5'' absent_booking)) = [fallback_image]"
    using images_nonempty[of "\<lambda>txt. None" "''0.5''" absent_booking, THEN conjunct2] a by simp
  have B: "v_images (b_venue (processedBooking (\<lambda>txt. None) ''0.5''
        (absent_booking\<lparr>images := ImagesText ''not json''\<rparr>))) = [fallback_image]"
    using images_nonempty[of "\<lambda>txt. None" "''0.5''" "absent_booking\<lparr>images := ImagesText ''not json''\<rparr>",
        THEN conjunct2] b by simp
  show ?thesis using A B by blast
qed

text \<open>Every booking that \<^verbatim>\<open>getBookings\<close> returns has an image.\<close>

lemma getBookings_images_nonempty:
  assumes "getBookings JSON_parse random st r = (st', Inr bs)" and "b \<in> set bs"
  shows "v_images (b_venue b) \<noteq> []"
proof -
  have "\<exists>rnd raw. b = processedBooking JSON_parse rnd raw"
    using assms
    by (fastforce simp: getBookings_def api_def settle_def split: reply.splits option.splits if_splits)
  then show ?thesis using facilityImages_nonempty by (auto simp: processedBooking_def)
qed

text \<open>
  \<^verbatim>\<open>getBookings\<close> prefixes the asset host to every decoded image and replaces its
  backslashes, whether or not the image is already an absolute URL.
\<close>

lemma parsed_images_always_prefixed:
  assumes "images booking = ImagesText txt" and "txt \<noteq> []"
    and "JSON_parse txt = Some (JArr (map JStr imgs))"
  shows "parsed_facility_images JSON_parse (images booking)
           = map (\<lambda>img. asset_host @ replace_backslashes img) imgs"
proof -
  have "strings_of (map JStr imgs) = Some imgs" by (induction imgs) auto
  then show ?thesis using assms by (simp add: parsed_facility_images_def images_text_def)
qed

lemma replace_backslashes_none: "CHR 0x5C \<notin> set (replace_backslashes img)"
  by (auto simp: replace_backslashes_def)

text \<open>
  Claim C7. A decoded image that is already an absolute URL is not left unchanged by
  \<^verbatim>\<open>getBookings\<close>: \<^verbatim>\<open>http://cdn.example.com/a.jpg\<close> becomes
  \<^verbatim>\<open>https://admin.bookvenue.app/http://cdn.example.com/a.jpg\<close>.
\<close>

theorem absolute_image_is_prefixed:
  "v_images (b_venue (processedBooking (\<lambda>txt. Some (JArr [JStr ''http://cdn.example.com/a.jpg'']))
       random (booking\<lparr>images := ImagesText ''[...]'', facility_image := None\<rparr>)))
     = [''https://admin.bookvenue.app/http://cdn.example.com/a.jpg'']"
  by (simp add: processedBooking_def facilityImages_def parsed_facility_images_def images_text_def
      truthy_def asset_host_def replace_backslashes_def)

text \<open>
  The featured image keeps its backslashes in \<^verbatim>\<open>getBookings\<close>; the second module's
  \<^verbatim>\<open>getMyBookings\<close> keeps an absolute URL but replaces no backslash.
\<close>

lemma facility_image_keeps_backslash:
  "v_images (b_venue (processedBooking (\<lambda>txt. None) random
       (booking\<lparr>images := NoImages, facility_image := Some [CHR ''a'', CHR 0x5C, CHR ''b'']\<rparr>)))
     = [''https://admin.bookvenue.app/'' @ [CHR ''a'', CHR 0x5C, CHR ''b'']]"
  by (simp add: processedBooking_def facilityImages_def parsed_facility_images_def images_text_def
      truthy_def asset_host_def)

lemma resolve_image_absolute: "take 4 img = ''http'' \<Longrightarrow> resolve_image img = img"
  by (simp add: resolve_image_def)

lemma resolve_image_keeps_backslash:
  "resolve_image [CHR ''a'', CHR 0x5C, CHR ''b''] = asset_host @ [CHR ''a'', CHR 0x5C, CHR ''b'']"
  by (simp add: resolve_image_def)

text \<open>\<^verbatim>\<open>getMyBookings\<close> of the second module substitutes no fallback image.\<close>

lemma getMyBookings_no_fallback:
  "getMyBookings JSON_parse st
       (Response 200 (Some \<lparr>bookings = Some [absent_booking], message = None\<rparr>))
     = (st, Inr [absent_booking\<lparr>images := ImagesArray []\<rparr>])"
  by (simp add: getMyBookings_def api_part001_def response_interceptor_def settle_def
      processed_raw_def processed_images_def absent_booking_def)

section \<open>Purity of the normalization\<close>

text \<open>The canonical booking depends on the random source through the id only.\<close>

lemma random_only_in_id:
  "(bookingId booking \<noteq> None \<longrightarrow>
      processedBooking JSON_parse r1 booking = processedBooking JSON_parse r2 booking)
   \<and> (processedBooking JSON_parse r1 booking)\<lparr>b_id := x\<rparr>
       = (processedBooking JSON_parse r2 booking)\<lparr>b_id := x\<rparr>
   \<and> (bookingId booking = None \<longrightarrow> b_id (processedBooking JSON_parse r1 booking) = r1)"
  by (auto simp: processedBooking_def)

lemma random_id_differs:
  "processedBooking (\<lambda>txt. None) ''0.25'' absent_booking
     \<noteq> processedBooking (\<lambda>txt. None) ''0.75'' absent_booking"
  by (simp add: processedBooking_def absent_booking_def)

text \<open>On a status of the wire type the callback returns \<open>processedBooking\<close>.\<close>

lemma bookingStatus_wire:
  "bookingStatus (status_json x) = Inr (toLowerCase (or_default x ''pending''))"
  by (cases x) (auto simp: bookingStatus_def status_json_def or_default_def)

lemma bookingCallback_wire:
  "snd (bookingCallback JSON_parse random booking (status_json (status booking)))
     = Inr (processedBooking JSON_parse random booking)"
  by (simp add: bookingCallback_def bookingStatus_wire Let_def processedBooking_def)

lemma bookingStatus_cases:
  "(json_truthy v \<and> (\<forall>s. v \<noteq> JStr s) \<longrightarrow> bookingStatus v = Inl TypeError)
   \<and> (\<not> json_truthy v \<longrightarrow> bookingStatus v = Inr ''pending'')
   \<and> (json_truthy (JStr s) \<longrightarrow> bookingStatus (JStr s) = Inr (toLowerCase s))"
  by (cases v) (auto simp: bookingStatus_def toLowerCase_def latin1_upper_def latin1_lower_def)

text \<open>
  Claim C4, as the code has it. Two runs of the normalization on the same raw booking
  give the same result when the raw booking has a \<^verbatim>\<open>bookingId\<close>; without one the id is
  the random draw, and two runs that return agree on every field but the id. A run that
  returns has written to the console: its last line is \<^verbatim>\<open>Processed booking:\<close> with the
  booking returned. A run throws a \<^verbatim>\<open>TypeError\<close> when the status received is a truthy
  value that is not a string; when the status is a string or falsy, and the other fields
  have their wire types, it returns a canonical booking.
\<close>

theorem bookingCallback_effects:
  "(bookingId booking \<noteq> None \<longrightarrow>
      bookingCallback JSON_parse r1 booking v = bookingCallback JSON_parse r2 booking v)
   \<and> (\<forall>c1 c2. snd (bookingCallback JSON_parse r1 booking v) = Inr c1
          \<and> snd (bookingCallback JSON_parse r2 booking v) = Inr c2
        \<longrightarrow> c1\<lparr>b_id := x\<rparr> = c2\<lparr>b_id := x\<rparr>
            \<and> (bookingId booking = None \<longrightarrow> b_id c1 = r1 \<and> b_id c2 = r2))
   \<and> (\<forall>c. snd (bookingCallback JSON_parse r1 booking v) = Inr c
        \<longrightarrow> fst (bookingCallback JSON_parse r1 booking v) \<noteq> []
            \<and> last (fst (bookingCallback JSON_parse r1 booking v)) = console_log ''Processed booking:'' c)
   \<and> (json_truthy v \<and> (\<forall>s. v \<noteq> JStr s)
        \<longrightarrow> snd (bookingCallback JSON_parse r1 booking v) = Inl TypeError)
   \<and> (\<not> json_truthy v \<or> (\<exists>s. v = JStr s)
        \<longrightarrow> (\<exists>c. snd (bookingCallback JSON_parse r1 booking v) = Inr c))"
proof -
  have det: "bookingId booking \<noteq> None \<Longrightarrow>
      bookingCallback JSON_parse r1 booking v = bookingCallback JSON_parse r2 booking v"
  proof -
    assume "bookingId booking \<noteq> None"
    then have "processedBooking JSON_parse r1 booking = processedBooking JSON_parse r2 booking"
      using random_only_in_id[of booking JSON_parse r1 r2] by blast
    then show ?thesis by (simp add: bookingCallback_def Let_def split: sum.splits)
  qed
  have ids: "\<And>c1 c2. snd (bookingCallback JSON_parse r1 booking v) = Inr c1 \<Longrightarrow>
      snd (bookingCallback JSON_parse r2 booking v) = Inr c2 \<Longrightarrow>
      c1\<lparr>b_id := x\<rparr> = c2\<lparr>b_id := x\<rparr> \<and> (bookingId booking = None \<longrightarrow> b_id c1 = r1 \<and> b_id c2 = r2)"
    by (auto simp: bookingCallback_def Let_def processedBooking_def split: sum.splits)
  have io: "\<And>c. snd (bookingCallback JSON_parse r1 booking v) = Inr c \<Longrightarrow>
      fst (bookingCallback JSON_parse r1 booking v) \<noteq> []
      \<and> last (fst (bookingCallback JSON_parse r1 booking v)) = console_log ''Processed booking:'' c"
    by (auto simp: bookingCallback_def Let_def split: sum.splits)
  have throws: "json_truthy v \<Longrightarrow> \<forall>s. v \<noteq> JStr s \<Longrightarrow>
      snd (bookingCallback JSON_parse r1 booking v) = Inl TypeError"
    using bookingStatus_cases[of v] by (simp add: bookingCallback_def Let_def)
  have returns: "\<not> json_truthy v \<or> (\<exists>s. v = JStr s) \<Longrightarrow>
      \<exists>c. snd (bookingCallback JSON_parse r1 booking v) = Inr c"
    by (cases v) (auto simp: bookingCallback_def bookingStatus_def Let_def)
  show ?thesis using det ids io throws returns by blast
qed

theorem bookingCallback_effects_witness:
  "bookingCallback (\<lambda>txt. None) ''0.25'' (absent_booking\<lparr>bookingId := Some 42\<rparr>) JNull
     = bookingCallback (\<lambda>txt. None) ''0.75'' (absent_booking\<lparr>bookingId := Some 42\<rparr>) JNull
   \<and> snd (bookingCallback (\<lambda>txt. None) ''0.25'' absent_booking (JNum 1)) = Inl TypeError
   \<and> (\<exists>c. snd (bookingCallback (\<lambda>txt. None) ''0.25'' absent_booking (JStr ''CONFIRMED'')) = Inr c
          \<and> b_id c = ''0.25''
          \<and> last (fst (bookingCallback (\<lambda>txt. None) ''0.25'' absent_booking (JStr ''CONFIRMED'')))
              = console_log ''Processed booking:'' c)"
proof -
  let ?P = "\<lambda>txt::string. None :: json option"
  have a: "bookingId (absent_booking\<lparr>bookingId := Some 42\<rparr>) \<noteq> None" "bookingId absent_booking = None"
    by (simp_all add: absent_booking_def)
  have b: "json_truthy (JNum 1) \<and> (\<forall>s. JNum 1 \<noteq> JStr s)" by simp
  have c: "\<not> json_truthy (JStr ''CONFIRMED'') \<or> (\<exists>s. JStr ''CONFIRMED'' = JStr s)" by simp
  note run = bookingCallback_effects[of absent_booking ?P "''0.25''" "JStr ''CONFIRMED''" "''0.25''"]
  have A: "bookingCallback ?P ''0.25'' (absent_booking\<lparr>bookingId := Some 42\<rparr>) JNull
     = bookingCallback ?P ''0.75'' (absent_booking\<lparr>bookingId := Some 42\<rparr>) JNull"
    using bookingCallback_effects[of "absent_booking\<lparr>bookingId := Some 42\<rparr>" ?P
        "''0.25''" JNull "''0.75''", THEN conjunct1] a(1) by blast
  have B: "snd (bookingCallback ?P ''0.25'' absent_booking (JNum 1)) = Inl TypeError"
    using bookingCallback_effects[of absent_booking ?P "''0.25''" "JNum 1" "''0.25''",
        THEN conjunct2, THEN conjunct2, THEN conjunct2, THEN conjunct1] b by blast
  obtain k where k: "snd (bookingCallback ?P ''0.25'' absent_booking (JStr ''CONFIRMED'')) = Inr k"
    using run[THEN conjunct2, THEN conjunct2, THEN conjunct2, THEN conjunct2] c by blast
  have D: "b_id k = ''0.25''"
    using run[THEN conjunct2, THEN conjunct1] k a(2) by blast
  have E: "last (fst (bookingCallback ?P ''0.25'' absent_booking (JStr ''CONFIRMED'')))
      = console_log ''Processed booking:'' k"
    using run[THEN conjunct2, THEN conjunct2, THEN conjunct1] k by blast
  show ?thesis using A B k D E by blast
qed

text \<open>
  Claim C4 as stated fails on each of its three counts. Two runs on the raw booking
  \<^verbatim>\<open>{}\<close> with different random draws give different results; a run on it writes to the
  console; and a run on a raw booking with the status \<^verbatim>\<open>1\<close> throws a \<^verbatim>\<open>TypeError\<close>.
\<close>

theorem bookingCallback_not_pure:
  "bookingCallback (\<lambda>txt. None) ''0.25'' absent_booking JNull
     \<noteq> bookingCallback (\<lambda>txt. None) ''0.75'' absent_booking JNull
   \<and> fst (bookingCallback (\<lambda>txt. None) ''0.25'' absent_booking JNull) \<noteq> []
   \<and> snd (bookingCallback (\<lambda>txt. None) ''0.25'' absent_booking (JNum 1)) = Inl TypeError"
  by (simp add: bookingCallback_def bookingStatus_def Let_def processedBooking_def absent_booking_def
      images_decode_throws_def images_text_def)

section \<open>Authentication failures\<close>

text \<open>The client of the second module removes both keys on a 401, and rejects.\<close>

lemma api_part001_clears_on_401:
  "api_part001 st (Response 401 d)
     = (removeItem (removeItem st ''token'') ''user'', Rejected (Response 401 d))
   \<and> getItem (fst (api_part001 st (Response 401 d))) ''token'' = None
   \<and> getItem (fst (api_part001 st (Response 401 d))) ''user'' = None"
  by (simp add: api_part001_def response_interceptor_def settle_def removeItem_def getItem_def)

lemma getMyBookings_clears_on_401:
  "fst (getMyBookings JSON_parse st (Response 401 d)) = removeItem (removeItem st ''token'') ''user''
   \<and> (\<exists>msg. snd (getMyBookings JSON_parse st (Response 401 d)) = Inl (Error msg))"
  by (simp add: getMyBookings_def api_part001_def response_interceptor_def settle_def)

lemma getBookings_keeps_storage: "fst (getBookings JSON_parse random st r) = st"
  by (simp add: getBookings_def api_def settle_def split: reply.splits option.splits)

text \<open>
  Claim C5. A request through the client of \<^verbatim>\<open>src/api/bookingApi.ts\<close> that carries the
  bearer token and is answered with status 401 fails with the operation's error and
  leaves both \<^verbatim>\<open>token\<close> and \<^verbatim>\<open>user\<close> in the storage.
\<close>

theorem getBookings_401_keeps_storage:
  "getBookings JSON_parse random (Map.empty(''token'' \<mapsto> ''t0'', ''user'' \<mapsto> ''{}'')) (Response 401 None)
     = (Map.empty(''token'' \<mapsto> ''t0'', ''user'' \<mapsto> ''{}''), Inl (Error ''Failed to fetch bookings''))
   \<and> request_interceptor (Map.empty(''token'' \<mapsto> ''t0'', ''user'' \<mapsto> ''{}'')) = Some ''Bearer t0''"
  by (simp add: getBookings_def api_def settle_def error_message_def request_interceptor_def
      getItem_def truthy_def)

section \<open>No bookings\<close>

text \<open>
  Claim C6. For a successful reply whose body is \<^verbatim>\<open>{bookings: []}\<close>, whose body has no
  \<^verbatim>\<open>bookings\<close>, or that has no body, \<^verbatim>\<open>getBookings\<close> returns the empty list and no error.
\<close>

theorem getBookings_no_bookings:
  "200 \<le> code \<and> code < 300 \<longrightarrow>
     getBookings JSON_parse random st (Response code (Some \<lparr>bookings = Some [], message = m\<rparr>)) = (st, Inr [])
     \<and> getBookings JSON_parse random st (Response code (Some \<lparr>bookings = None, message = m\<rparr>)) = (st, Inr [])
     \<and> getBookings JSON_parse random st (Response code None) = (st, Inr [])"
  by (simp add: getBookings_def api_def settle_def)

theorem getBookings_no_bookings_witness:
  "getBookings (\<lambda>txt. None) (\<lambda>i. ''0.5'') Map.empty (Response 200 (Some \<lparr>bookings = Some [], message = None\<rparr>))
     = (Map.empty, Inr [])"
  using getBookings_no_bookings[of 200 "\<lambda>txt. None" "\<lambda>i. ''0.5''" Map.empty None] by simp

lemma getMyBookings_no_bookings:
  "200 \<le> code \<Longrightarrow> code < 300 \<Longrightarrow>
     getMyBookings JSON_parse st (Response code (Some \<lparr>bookings = Some [], message = m\<rparr>)) = (st, Inr [])
     \<and> getMyBookings JSON_parse st (Response code (Some \<lparr>bookings = None, message = m\<rparr>)) = (st, Inr [])"
  by (simp add: getMyBookings_def api_part001_def response_interceptor_def settle_def)

section \<open>The amount\<close>


text \<open>A no-break space before the digits is skipped.\<close>

lemma parseFloat_nbsp: "parseFloat [CHR 0xA0, CHR ''5''] = Num 5"
  by (simp add: parseFloat_def is_white_def is_digit_def digits_value_def digit_value_def
      scale10_def exponent_part_def)




text \<open>\<^verbatim>\<open>getBookingById\<close> parses its amount the same way.\<close>

lemma byId_totalAmount_abc: "byId_totalAmount None (Some ''abc'') = NaN"
  by (simp add: byId_totalAmount_def or_default_def parseFloat_def is_white_def is_digit_def)

end
